theory Spec2Isabelle
  imports Main
begin

section \<open>Persistence gateway: the tables the handlers touch\<close>

text \<open>
  The handlers are thin request handlers over a hosted relational store. A table is the
  list of its rows, in storage order. Columns are kept under the names of the SQL scripts,
  prefixed where two tables share a column name. Timestamps are milliseconds since the
  epoch, the unit of \<^verbatim>\<open>Date.now()\<close>; JSON numbers of request bodies and of
  \<^verbatim>\<open>policy_config\<close> are integers.
\<close>

type_synonym uuid = string
type_synonym timestamp = int

text \<open>\<^verbatim>\<open>public.transactions\<close> (status is TEXT, checked against pending, confirmed, failed).\<close>

record transaction =
  tx_id :: uuid
  tx_user_id :: uuid
  tx_status :: string
  tx_created_at :: timestamp
  tx_updated_at :: timestamp

text \<open>\<^verbatim>\<open>public.security_policies\<close>; \<^verbatim>\<open>policy_config\<close> is the JSON object whose
  fields the sponsor handlers, the policy middleware and \<^verbatim>\<open>validate_security_policies\<close>
  read.\<close>

record policy_config =
  hours :: int
  max_transactions :: int
  max_amount :: int
  max_requests :: int
  allowed_hours :: "int list"
  allowed_ips :: "string list"

record security_policy =
  sp_user_id :: uuid
  policy_name :: string
  policy_type :: string
  policy_config :: policy_config
  is_active :: bool

text \<open>\<^verbatim>\<open>public.gasless_transactions\<close>.\<close>

record gasless_transaction =
  g_id :: uuid
  g_user_id :: uuid
  g_transaction_id :: uuid
  sponsor_address :: string
  gas_fee_ada :: int
  g_status :: string
  nonce :: int
  expires_at :: timestamp
  g_created_at :: timestamp

record database =
  transactions :: "transaction list"
  security_policies :: "security_policy list"
  gasless_transactions :: "gasless_transaction list"

text \<open>
  Every call of the query client returns \<^verbatim>\<open>{ data, error }\<close>. The calls a handler
  makes are named, and the environment of one request says which of them the store does
  not carry out: the call comes back with an error and no data, or, for a statement that
  row-level security refuses, without a row. The environment also supplies the clock and the
  identifier the store generates for an inserted row. Requests are handled one at a time.
\<close>

datatype db_call =
    SelectTransaction
  | SelectPolicies
  | SelectRecent nat
  | RpcNonce
  | InsertGasless
  | SelectGasless
  | SelectAuditLogs nat
  | UpdateTransaction
  | InsertToken
  | InsertWallet
  | InsertSigners
  | DeleteWallet
  | UpdatePayment
  | SelectSubscription
  | UpdateSubscription

record env =
  now :: timestamp
  new_id :: uuid
  fails :: "db_call \<Rightarrow> bool"

text \<open>A response: the HTTP status with the JSON body of a success, or with the body's
  \<^verbatim>\<open>error\<close> field.\<close>

datatype 'a response = Ok_json nat 'a | Err_json nat string

text \<open>\<^verbatim>\<open>.single()\<close>: exactly one row, otherwise an error and no data.\<close>

definition single :: "'a list \<Rightarrow> 'a option" where
  "single rows = (case rows of [r] \<Rightarrow> Some r | _ \<Rightarrow> None)"

section \<open>Request validation\<close>

text \<open>\<^verbatim>\<open>isUUID()\<close> of the validation chain: 8-4-4-4-12 hexadecimal digits.\<close>

definition isHexDigit :: "char \<Rightarrow> bool" where
  "isHexDigit c = (c \<in> set ''0123456789abcdefABCDEF'')"

definition isUUID :: "string \<Rightarrow> bool" where
  "isUUID s =
     list_all2 (\<lambda>p c. if p = CHR ''-'' then c = CHR ''-'' else isHexDigit c)
       ''xxxxxxxx-xxxx-xxxx-xxxx-xxxxxxxxxxxx'' s"

section \<open>Gasless sponsorship: POST /api/gasless/sponsor\<close>

text \<open>
  The handler of the API server. The request body: \<^verbatim>\<open>estimated_fee\<close> is \<open>None\<close>
  when it is missing or not an integer. The validation chain asks for a UUID and for an
  integer fee of at least 1.
\<close>

record sponsor_body =
  transaction_id :: string
  estimated_fee :: "int option"

definition sponsor_valid :: "sponsor_body \<Rightarrow> bool" where
  "sponsor_valid b =
     (isUUID (transaction_id b) \<and> (case estimated_fee b of None \<Rightarrow> False | Some n \<Rightarrow> 1 \<le> n))"

definition select_transaction :: "env \<Rightarrow> database \<Rightarrow> uuid \<Rightarrow> uuid \<Rightarrow> transaction option" where
  "select_transaction e db tid uid =
     (if fails e SelectTransaction then None
      else single (filter (\<lambda>t. tx_id t = tid \<and> tx_user_id t = uid) (transactions db)))"

text \<open>The read of the user's active policies; \<open>None\<close> is \<^verbatim>\<open>data: null\<close>.\<close>

definition select_policies :: "env \<Rightarrow> database \<Rightarrow> uuid \<Rightarrow> security_policy list option" where
  "select_policies e db uid =
     (if fails e SelectPolicies then None
      else Some (filter (\<lambda>p. sp_user_id p = uid \<and> is_active p) (security_policies db)))"

text \<open>The rows \<^verbatim>\<open>.eq("user_id", uid).gte("created_at", hoursAgo)\<close> selects.\<close>

definition recent_gasless :: "database \<Rightarrow> uuid \<Rightarrow> timestamp \<Rightarrow> gasless_transaction list" where
  "recent_gasless db uid hoursAgo =
     filter (\<lambda>g. g_user_id g = uid \<and> hoursAgo \<le> g_created_at g) (gasless_transactions db)"

text \<open>The read of the recent history made for the policy at position \<open>i\<close> of the loop.\<close>

definition select_recent :: "env \<Rightarrow> database \<Rightarrow> uuid \<Rightarrow> nat \<Rightarrow> timestamp \<Rightarrow> gasless_transaction list option" where
  "select_recent e db uid i hoursAgo =
     (if fails e (SelectRecent i) then None else Some (recent_gasless db uid hoursAgo))"

text \<open>\<^verbatim>\<open>(recentTxs?.length || 0) >= config.max_transactions\<close>.\<close>

definition rate_limit_exceeded :: "env \<Rightarrow> database \<Rightarrow> uuid \<Rightarrow> nat \<Rightarrow> policy_config \<Rightarrow> bool" where
  "rate_limit_exceeded e db uid i config =
     (let hoursAgo = now e - hours config * 60 * 60 * 1000;
          recentTxs = select_recent e db uid i hoursAgo
      in max_transactions config \<le> (case recentTxs of None \<Rightarrow> 0 | Some rows \<Rightarrow> int (length rows)))"

text \<open>The loop over the policies: the first violated policy answers the request.\<close>

fun policy_loop :: "env \<Rightarrow> database \<Rightarrow> uuid \<Rightarrow> int \<Rightarrow> nat \<Rightarrow> security_policy list \<Rightarrow> (nat \<times> string) option" where
  "policy_loop e db uid fee i [] = None"
| "policy_loop e db uid fee i (policy # rest) =
     (if policy_type policy = ''rate_limit'' \<and> rate_limit_exceeded e db uid i (policy_config policy)
      then Some (429, ''Rate limit exceeded'')
      else if policy_type policy = ''amount_limit'' \<and> max_amount (policy_config policy) < fee
      then Some (400, ''Amount limit exceeded'')
      else policy_loop e db uid fee (Suc i) rest)"

text \<open>\<^verbatim>\<open>generate_transaction_nonce\<close>: \<^verbatim>\<open>COALESCE(MAX(nonce), 0) + 1\<close> over the user's
  rows; the result is a BIGINT, and the function fails when it does not fit.\<close>

definition generate_transaction_nonce :: "database \<Rightarrow> uuid \<Rightarrow> int option" where
  "generate_transaction_nonce db user_uuid =
     (let nonces = map nonce (filter (\<lambda>g. g_user_id g = user_uuid) (gasless_transactions db));
          next_nonce = (if nonces = [] then 0 else Max (set nonces)) + 1
      in if next_nonce \<le> 9223372036854775807 then Some next_nonce else None)"

definition rpc_nonce :: "env \<Rightarrow> database \<Rightarrow> uuid \<Rightarrow> int option" where
  "rpc_nonce e db uid = (if fails e RpcNonce then None else generate_transaction_nonce db uid)"

definition new_gasless :: "env \<Rightarrow> uuid \<Rightarrow> uuid \<Rightarrow> int \<Rightarrow> int \<Rightarrow> gasless_transaction" where
  "new_gasless e uid tid fee n =
     \<lparr> g_id = new_id e, g_user_id = uid, g_transaction_id = tid,
       sponsor_address = ''addr1_kepka_sponsor_treasury_address'',
       gas_fee_ada = fee, g_status = ''sponsored'', nonce = n,
       expires_at = now e + 30 * 60 * 1000, g_created_at = now e \<rparr>"

definition sponsor :: "env \<Rightarrow> database \<Rightarrow> uuid \<Rightarrow> sponsor_body \<Rightarrow> gasless_transaction response \<times> database" where
  "sponsor e db uid b =
     (if \<not> sponsor_valid b then (Err_json 400 ''Validation failed'', db)
      else
        (case select_transaction e db (transaction_id b) uid of
           None \<Rightarrow> (Err_json 404 ''Transaction not found'', db)
         | Some transaction \<Rightarrow>
             (let fee = the (estimated_fee b);
                  policies = (case select_policies e db uid of None \<Rightarrow> [] | Some ps \<Rightarrow> ps)
              in (case policy_loop e db uid fee 0 policies of
                    Some (code, msg) \<Rightarrow> (Err_json code msg, db)
                  | None \<Rightarrow>
                      (case rpc_nonce e db uid of
                         None \<Rightarrow> (Err_json 500 ''Failed to generate nonce'', db)
                       | Some nonceResult \<Rightarrow>
                           (let n = (if nonceResult = 0 then 1 else nonceResult);
                                row = new_gasless e uid (transaction_id b) fee n
                            in if fails e InsertGasless
                               then (Err_json 400 ''Failed to sponsor transaction'', db)
                               else (Ok_json 200 row,
                                     db\<lparr>gasless_transactions := gasless_transactions db @ [row]\<rparr>)))))))"

text \<open>GET /api/gasless/transactions: the user's rows as stored, newest first.\<close>

definition get_gasless_transactions :: "env \<Rightarrow> database \<Rightarrow> uuid \<Rightarrow> gasless_transaction list response" where
  "get_gasless_transactions e db uid =
     (if fails e SelectGasless then Err_json 400 ''Failed to retrieve gasless transactions''
      else Ok_json 200
             (sort_key (\<lambda>g. - g_created_at g)
                (filter (\<lambda>g. g_user_id g = uid) (gasless_transactions db))))"

section \<open>Gasless sponsorship: the route handler of the web application\<close>

text \<open>
  \<^verbatim>\<open>app/api/gasless/sponsor/route.ts\<close>. The caller is \<open>None\<close> when
  \<^verbatim>\<open>auth.getUser()\<close> gives an error or no user. The body is not validated; the
  \<^verbatim>\<open>id\<close> column is a UUID, so the lookup of a malformed identifier is an error of
  the store. The loop checks \<^verbatim>\<open>rate_limit\<close> policies only, the error of the nonce
  call is not read, and an insert error is thrown into the handler's \<^verbatim>\<open>catch\<close>.
\<close>

fun rate_limit_loop :: "env \<Rightarrow> database \<Rightarrow> uuid \<Rightarrow> nat \<Rightarrow> security_policy list \<Rightarrow> (nat \<times> string) option" where
  "rate_limit_loop e db uid i [] = None"
| "rate_limit_loop e db uid i (policy # rest) =
     (if policy_type policy = ''rate_limit'' \<and> rate_limit_exceeded e db uid i (policy_config policy)
      then Some (429, ''Rate limit exceeded'')
      else rate_limit_loop e db uid (Suc i) rest)"

definition sponsor_route :: "env \<Rightarrow> database \<Rightarrow> uuid option \<Rightarrow> sponsor_body \<Rightarrow> gasless_transaction response \<times> database" where
  "sponsor_route e db user b =
     (case user of
        None \<Rightarrow> (Err_json 401 ''Unauthorized'', db)
      | Some uid \<Rightarrow>
          (case (if isUUID (transaction_id b) then select_transaction e db (transaction_id b) uid else None) of
             None \<Rightarrow> (Err_json 404 ''Transaction not found'', db)
           | Some transaction \<Rightarrow>
               (let policies = (case select_policies e db uid of None \<Rightarrow> [] | Some ps \<Rightarrow> ps)
                in (case rate_limit_loop e db uid 0 policies of
                      Some (code, msg) \<Rightarrow> (Err_json code msg, db)
                    | None \<Rightarrow>
                        (let nonceResult = rpc_nonce e db uid;
                             n = (case nonceResult of None \<Rightarrow> 1 | Some r \<Rightarrow> if r = 0 then 1 else r);
                             fee = (case estimated_fee b of None \<Rightarrow> 0 | Some f \<Rightarrow> f);
                             row = new_gasless e uid (transaction_id b) fee n
                         in if fails e InsertGasless
                            then (Err_json 500 ''Failed to sponsor transaction'', db)
                            else (Ok_json 200 row,
                                  db\<lparr>gasless_transactions := gasless_transactions db @ [row]\<rparr>))))))"

section \<open>The stored function validate_security_policies\<close>



section \<open>Middleware: validateSecurityPolicies and validateSignature\<close>

text \<open>A middleware either answers the request or calls \<^verbatim>\<open>next()\<close>.\<close>

datatype middleware_result = Next | Respond nat string

text \<open>\<^verbatim>\<open>public.audit_logs\<close>, and the parts of the request the policies look at.\<close>

record audit_log =
  al_user_id :: uuid
  al_action :: string
  al_created_at :: timestamp

record request =
  req_user :: "uuid option"
  req_method :: string
  req_path :: string
  req_ip :: string

text \<open>\<^verbatim>\<open>validatePolicy\<close>; \<open>currentHour\<close> is \<^verbatim>\<open>new Date().getHours()\<close>.\<close>

definition validatePolicy :: "env \<Rightarrow> audit_log list \<Rightarrow> int \<Rightarrow> nat \<Rightarrow> security_policy \<Rightarrow> request \<Rightarrow> uuid \<Rightarrow> bool" where
  "validatePolicy e logs currentHour i policy req uid =
     (let config = policy_config policy in
      if policy_type policy = ''rate_limit'' then
        (let hoursAgo = now e - hours config * 60 * 60 * 1000;
             recentRequests =
               (if fails e (SelectAuditLogs i) then None
                else Some (filter (\<lambda>l. al_user_id l = uid \<and> al_action l = req_method req @ '' '' @ req_path req
                                        \<and> hoursAgo \<le> al_created_at l) logs))
         in (case recentRequests of None \<Rightarrow> 0 | Some rows \<Rightarrow> int (length rows)) < max_requests config)
      else if policy_type policy = ''time_lock'' then currentHour \<in> set (allowed_hours config)
      else if policy_type policy = ''whitelist'' then req_ip req \<in> set (allowed_ips config)
      else True)"

fun validate_each :: "env \<Rightarrow> audit_log list \<Rightarrow> int \<Rightarrow> nat \<Rightarrow> security_policy list \<Rightarrow> request \<Rightarrow> uuid \<Rightarrow> middleware_result" where
  "validate_each e logs currentHour i [] req uid = Next"
| "validate_each e logs currentHour i (policy # rest) req uid =
     (if \<not> validatePolicy e logs currentHour i policy req uid
      then Respond 403 ''Security policy violation''
      else validate_each e logs currentHour (Suc i) rest req uid)"

definition validateSecurityPolicies :: "env \<Rightarrow> database \<Rightarrow> audit_log list \<Rightarrow> int \<Rightarrow> request \<Rightarrow> middleware_result" where
  "validateSecurityPolicies e db logs currentHour req =
     (case req_user req of
        None \<Rightarrow> Next
      | Some uid \<Rightarrow>
          (case select_policies e db uid of
             None \<Rightarrow> Next
           | Some policies \<Rightarrow> validate_each e logs currentHour 0 policies req uid))"

text \<open>\<^verbatim>\<open>validateSignature(secret, headerName)\<close>: \<open>hmac\<close> is the hexadecimal
  HMAC-SHA256 of the body under the secret, \<open>signature\<close> the value of the header.\<close>

definition validateSignature :: "(string \<Rightarrow> string \<Rightarrow> string) \<Rightarrow> string \<Rightarrow> string option \<Rightarrow> string \<Rightarrow> middleware_result" where
  "validateSignature hmac secret signature body =
     (case signature of
        None \<Rightarrow> Respond 401 ''Missing signature''
      | Some sig \<Rightarrow>
          if sig = [] then Respond 401 ''Missing signature''
          else if sig \<noteq> ''sha256='' @ hmac secret body then Respond 401 ''Invalid signature''
          else Next)"

section \<open>Transactions: PATCH /api/transactions/:id/status\<close>

text \<open>
  The handler validates the identifier and the status, then issues one
  \<^verbatim>\<open>update(...).eq("id", id).eq("user_id", uid).select().single()\<close>. The answer is 404
  when the call fails or does not touch exactly one row (the identifier is the primary key,
  so a stored table has at most one such row); nothing is read before the update.
\<close>

definition status_valid :: "string \<Rightarrow> bool" where
  "status_valid s = (s \<in> set [''pending'', ''confirmed'', ''failed''])"

definition patch_status :: "env \<Rightarrow> database \<Rightarrow> uuid \<Rightarrow> string \<Rightarrow> string \<Rightarrow> transaction response \<times> database" where
  "patch_status e db uid tid s =
     (if \<not> (isUUID tid \<and> status_valid s) then (Err_json 400 ''Validation failed'', db)
      else if fails e UpdateTransaction then (Err_json 404 ''Transaction not found'', db)
      else (case single (filter (\<lambda>t. tx_id t = tid \<and> tx_user_id t = uid) (transactions db)) of
              None \<Rightarrow> (Err_json 404 ''Transaction not found'', db)
            | Some old \<Rightarrow>
                (let transaction = old\<lparr>tx_status := s, tx_updated_at := now e\<rparr>
                 in (Ok_json 200 transaction,
                     db\<lparr>transactions :=
                          map (\<lambda>t. if tx_id t = tid \<and> tx_user_id t = uid then transaction else t)
                            (transactions db)\<rparr>))))"

section \<open>Tokens: POST /api/tokens\<close>






section \<open>Multi-signature wallets: POST /api/security/multi-sig-wallets\<close>

text \<open>\<^verbatim>\<open>public.multi_sig_wallets\<close> and \<^verbatim>\<open>public.wallet_signers\<close>.\<close>

record multi_sig_wallet =
  wallet_id :: uuid
  w_user_id :: uuid
  wallet_name :: string
  required_signatures :: int
  total_signers :: int
  wallet_address :: string
  script_hash :: string
  w_is_active :: bool

record wallet_signer =
  multi_sig_wallet_id :: uuid
  signer_address :: string
  signer_name :: "string option"
  public_key :: string
  is_verified :: bool

record wallet_db =
  multi_sig_wallets :: "multi_sig_wallet list"
  wallet_signers :: "wallet_signer list"

record signer_input =
  in_signer_address :: string
  in_signer_name :: "string option"
  in_public_key :: string

record wallet_body =
  b_wallet_name :: string
  b_required_signatures :: "int option"
  b_total_signers :: "int option"
  b_wallet_address :: string
  b_script_hash :: string
  b_signers :: "signer_input list"

definition wallet_valid :: "wallet_body \<Rightarrow> bool" where
  "wallet_valid b =
     (b_wallet_name b \<noteq> [] \<and>
      (case b_required_signatures b of None \<Rightarrow> False | Some r \<Rightarrow> 1 \<le> r) \<and>
      (case b_total_signers b of None \<Rightarrow> False | Some t \<Rightarrow> 1 \<le> t) \<and>
      b_wallet_address b \<noteq> [] \<and> b_script_hash b \<noteq> [] \<and>
      1 \<le> length (b_signers b) \<and>
      list_all (\<lambda>s. in_signer_address s \<noteq> [] \<and> in_public_key s \<noteq> []) (b_signers b))"

text \<open>The wallet insert is refused when the call fails, when the generated key is taken or
  when \<^verbatim>\<open>wallet_address\<close> is not unique.\<close>

definition insert_wallet :: "env \<Rightarrow> wallet_db \<Rightarrow> multi_sig_wallet \<Rightarrow> wallet_db option" where
  "insert_wallet e db w =
     (if fails e InsertWallet
         \<or> (\<exists>x \<in> set (multi_sig_wallets db). wallet_id x = wallet_id w \<or> wallet_address x = wallet_address w)
      then None else Some (db\<lparr>multi_sig_wallets := multi_sig_wallets db @ [w]\<rparr>))"

text \<open>The signers are inserted by one statement: all rows or none. It is refused when the
  call fails or when \<^verbatim>\<open>UNIQUE(multi_sig_wallet_id, signer_address)\<close> is violated, among
  the new rows or against a stored row.\<close>

definition signer_key :: "wallet_signer \<Rightarrow> uuid \<times> string" where
  "signer_key s = (multi_sig_wallet_id s, signer_address s)"

definition insert_signers :: "env \<Rightarrow> wallet_db \<Rightarrow> wallet_signer list \<Rightarrow> wallet_db option" where
  "insert_signers e db signersData =
     (if fails e InsertSigners
         \<or> \<not> distinct (map signer_key signersData)
         \<or> (\<exists>s \<in> set signersData. signer_key s \<in> set (map signer_key (wallet_signers db)))
      then None else Some (db\<lparr>wallet_signers := wallet_signers db @ signersData\<rparr>))"

text \<open>The rollback \<^verbatim>\<open>delete().eq("id", wallet.id)\<close>; its result is not read. The signer
  rows of a deleted wallet go with it (\<^verbatim>\<open>ON DELETE CASCADE\<close>).\<close>

definition delete_wallet :: "env \<Rightarrow> wallet_db \<Rightarrow> uuid \<Rightarrow> wallet_db" where
  "delete_wallet e db wid =
     (if fails e DeleteWallet then db
      else db\<lparr>multi_sig_wallets := filter (\<lambda>w. wallet_id w \<noteq> wid) (multi_sig_wallets db),
              wallet_signers := filter (\<lambda>s. multi_sig_wallet_id s \<noteq> wid) (wallet_signers db)\<rparr>)"

definition create_wallet :: "env \<Rightarrow> wallet_db \<Rightarrow> uuid \<Rightarrow> wallet_body \<Rightarrow> (multi_sig_wallet \<times> wallet_signer list) response \<times> wallet_db" where
  "create_wallet e db uid b =
     (if \<not> wallet_valid b then (Err_json 400 ''Validation failed'', db)
      else
        (let required = the (b_required_signatures b); total = the (b_total_signers b) in
         if total < required then (Err_json 400 ''Invalid configuration'', db)
         else if int (length (b_signers b)) \<noteq> total then (Err_json 400 ''Invalid configuration'', db)
         else
           (let w = \<lparr> wallet_id = new_id e, w_user_id = uid, wallet_name = b_wallet_name b,
                      required_signatures = required, total_signers = total,
                      wallet_address = b_wallet_address b, script_hash = b_script_hash b,
                      w_is_active = True \<rparr>
            in (case insert_wallet e db w of
                  None \<Rightarrow> (Err_json 400 ''Failed to create multi-sig wallet'', db)
                | Some db1 \<Rightarrow>
                    (let signersData =
                           map (\<lambda>signer. \<lparr> multi_sig_wallet_id = wallet_id w,
                                             signer_address = in_signer_address signer,
                                             signer_name =
                                               (if in_signer_name signer = Some [] then None
                                                else in_signer_name signer),
                                             public_key = in_public_key signer,
                                             is_verified = False \<rparr>) (b_signers b)
                     in (case insert_signers e db1 signersData of
                           None \<Rightarrow> (Err_json 400 ''Failed to add signers'', delete_wallet e db1 (wallet_id w))
                         | Some db2 \<Rightarrow> (Ok_json 201 (w, signersData), db2)))))))"

section \<open>Payment webhooks: POST /api/payments/webhooks\<close>

text \<open>\<^verbatim>\<open>payment_transactions\<close> and \<^verbatim>\<open>user_subscriptions\<close>.\<close>

record payment_transaction =
  pt_user_id :: uuid
  stripe_payment_intent_id :: string
  amount_cents :: int
  pt_status :: string
  pt_updated_at :: timestamp

record user_subscription =
  us_user_id :: uuid
  stripe_customer_id :: string
  stripe_subscription_id :: "string option"
  us_status :: string
  us_current_period_start :: "timestamp option"
  us_current_period_end :: "timestamp option"
  us_cancel_at_period_end :: bool
  us_updated_at :: timestamp

record billing =
  payment_transactions :: "payment_transaction list"
  user_subscriptions :: "user_subscription list"

text \<open>The fields of \<^verbatim>\<open>event.data.object\<close> the handler reads, whatever the object is.\<close>

record stripe_object =
  obj_id :: string
  customer :: string
  obj_status :: string
  current_period_start :: int
  current_period_end :: int
  cancel_at_period_end :: bool

record stripe_event =
  event_type :: string
  event_object :: stripe_object

record webhook_config =
  stripe_configured :: bool
  webhookSecret :: "string option"

text \<open>\<^verbatim>\<open>update({ status, updated_at }).eq("stripe_payment_intent_id", id)\<close>.\<close>

definition update_payment :: "env \<Rightarrow> billing \<Rightarrow> string \<Rightarrow> string \<Rightarrow> billing" where
  "update_payment e db pid s =
     (if fails e UpdatePayment then db
      else db\<lparr>payment_transactions :=
                map (\<lambda>r. if stripe_payment_intent_id r = pid
                          then r\<lparr>pt_status := s, pt_updated_at := now e\<rparr> else r)
                  (payment_transactions db)\<rparr>)"

text \<open>The status column accepts five values (\<^verbatim>\<open>CHECK\<close>), and
  \<^verbatim>\<open>stripe_subscription_id\<close> is \<^verbatim>\<open>UNIQUE\<close>: an update that breaks either is
  refused as a whole.\<close>

definition subscription_status_ok :: "string \<Rightarrow> bool" where
  "subscription_status_ok s =
     (s \<in> set [''active'', ''canceled'', ''past_due'', ''unpaid'', ''trialing''])"

definition select_subscription :: "env \<Rightarrow> billing \<Rightarrow> string \<Rightarrow> user_subscription option" where
  "select_subscription e db cust =
     (if fails e SelectSubscription then None
      else single (filter (\<lambda>r. stripe_customer_id r = cust) (user_subscriptions db)))"

definition update_subscription :: "env \<Rightarrow> billing \<Rightarrow> stripe_object \<Rightarrow> billing" where
  "update_subscription e db subscription =
     (if fails e UpdateSubscription
         \<or> \<not> subscription_status_ok (obj_status subscription)
         \<or> (\<exists>r \<in> set (user_subscriptions db).
               stripe_customer_id r \<noteq> customer subscription \<and>
               stripe_subscription_id r = Some (obj_id subscription))
      then db
      else db\<lparr>user_subscriptions :=
                map (\<lambda>r. if stripe_customer_id r = customer subscription
                          then r\<lparr>stripe_subscription_id := Some (obj_id subscription),
                                 us_status := obj_status subscription,
                                 us_current_period_start := Some (current_period_start subscription * 1000),
                                 us_current_period_end := Some (current_period_end subscription * 1000),
                                 us_cancel_at_period_end := cancel_at_period_end subscription,
                                 us_updated_at := now e\<rparr>
                          else r)
                  (user_subscriptions db)\<rparr>)"

definition cancel_subscription :: "env \<Rightarrow> billing \<Rightarrow> string \<Rightarrow> billing" where
  "cancel_subscription e db sid =
     (if fails e UpdateSubscription then db
      else db\<lparr>user_subscriptions :=
                map (\<lambda>r. if stripe_subscription_id r = Some sid
                          then r\<lparr>us_status := ''canceled'', us_updated_at := now e\<rparr> else r)
                  (user_subscriptions db)\<rparr>)"

text \<open>The \<^verbatim>\<open>switch\<close> on the event type, with the store calls it makes, in order.\<close>

definition handle_event :: "env \<Rightarrow> billing \<Rightarrow> stripe_event \<Rightarrow> billing \<times> db_call list" where
  "handle_event e db event =
     (let obj = event_object event in
      if event_type event = ''payment_intent.succeeded''
        then (update_payment e db (obj_id obj) ''succeeded'', [UpdatePayment])
      else if event_type event = ''payment_intent.payment_failed''
        then (update_payment e db (obj_id obj) ''failed'', [UpdatePayment])
      else if event_type event = ''customer.subscription.created''
              \<or> event_type event = ''customer.subscription.updated''
        then (case select_subscription e db (customer obj) of
                None \<Rightarrow> (db, [SelectSubscription])
              | Some existingSubscription \<Rightarrow>
                  (update_subscription e db obj, [SelectSubscription, UpdateSubscription]))
      else if event_type event = ''customer.subscription.deleted''
        then (cancel_subscription e db (obj_id obj), [UpdateSubscription])
      else (db, []))"

text \<open>
  The handler. \<open>constructEvent\<close> is the payment library's verification of the raw body and
  the \<^verbatim>\<open>stripe-signature\<close> header against the secret: it gives the event, or throws
  (\<open>None\<close>). The result is the response, the tables and the store calls made.
\<close>

definition webhook_POST ::
  "webhook_config \<Rightarrow> (string \<Rightarrow> string option \<Rightarrow> string \<Rightarrow> stripe_event option) \<Rightarrow> env \<Rightarrow> billing
     \<Rightarrow> string \<Rightarrow> string option \<Rightarrow> unit response \<times> billing \<times> db_call list" where
  "webhook_POST cfg constructEvent e db body signature =
     (if \<not> stripe_configured cfg \<or> webhookSecret cfg = None \<or> webhookSecret cfg = Some []
      then (Err_json 500 ''Webhook not configured'', db, [])
      else (case constructEvent body signature (the (webhookSecret cfg)) of
              None \<Rightarrow> (Err_json 400 ''Invalid signature'', db, [])
            | Some event \<Rightarrow>
                (let (db', calls) = handle_event e db event
                 in (Ok_json 200 (), db', calls))))"

section \<open>Example data\<close>

text \<open>
  One user with one pending transaction, a rate limit of one sponsorship per hour, and one
  sponsorship created exactly one hour before the request and expired since.
\<close>

definition ex_tid :: uuid where
  "ex_tid = ''3f2504e0-4f89-11d3-9a0c-0305e82c3301''"

definition ex_env :: env where
  "ex_env = \<lparr> now = 7200000, new_id = ''9b2e4c1a-0d3f-4e5a-8b7c-6d5e4f3a2b1c'', fails = (\<lambda>c. False) \<rparr>"

definition ex_tx :: transaction where
  "ex_tx = \<lparr> tx_id = ex_tid, tx_user_id = ''alice'', tx_status = ''pending'',
             tx_created_at = 7000000, tx_updated_at = 7000000 \<rparr>"

definition ex_config :: policy_config where
  "ex_config = \<lparr> hours = 1, max_transactions = 1, max_amount = 200000, max_requests = 10,
                 allowed_hours = [], allowed_ips = [] \<rparr>"

definition ex_rate_policy :: security_policy where
  "ex_rate_policy = \<lparr> sp_user_id = ''alice'', policy_name = ''Default Rate Limit'',
                      policy_type = ''rate_limit'', policy_config = ex_config, is_active = True \<rparr>"

definition ex_amount_policy :: security_policy where
  "ex_amount_policy = \<lparr> sp_user_id = ''alice'', policy_name = ''Fee cap'',
                        policy_type = ''amount_limit'', policy_config = ex_config, is_active = True \<rparr>"

definition ex_gasless :: gasless_transaction where
  "ex_gasless = \<lparr> g_id = ''g1'', g_user_id = ''alice'', g_transaction_id = ''t0'',
                  sponsor_address = ''addr1_kepka_sponsor_treasury_address'', gas_fee_ada = 170000,
                  g_status = ''sponsored'', nonce = 1, expires_at = 5400000, g_created_at = 3600000 \<rparr>"

definition ex_db :: database where
  "ex_db = \<lparr> transactions = [ex_tx], security_policies = [ex_rate_policy],
             gasless_transactions = [ex_gasless] \<rparr>"

definition ex_body :: sponsor_body where
  "ex_body = \<lparr> transaction_id = ex_tid, estimated_fee = Some 200000 \<rparr>"

text \<open>The sponsorship the handler writes for \<open>ex_body\<close> with nonce \<open>n\<close>.\<close>

definition ex_new :: "int \<Rightarrow> int \<Rightarrow> gasless_transaction" where
  "ex_new fee n = \<lparr> g_id = ''9b2e4c1a-0d3f-4e5a-8b7c-6d5e4f3a2b1c'', g_user_id = ''alice'',
                    g_transaction_id = ex_tid,
                    sponsor_address = ''addr1_kepka_sponsor_treasury_address'', gas_fee_ada = fee,
                    g_status = ''sponsored'', nonce = n, expires_at = 9000000, g_created_at = 7200000 \<rparr>"


text \<open>The foreign key of \<^verbatim>\<open>wallet_signers\<close>: every signer row belongs to a stored wallet.\<close>

definition signers_reference_wallets :: "wallet_db \<Rightarrow> bool" where
  "signers_reference_wallets db =
     list_all (\<lambda>s. multi_sig_wallet_id s \<in> set (map wallet_id (multi_sig_wallets db))) (wallet_signers db)"



text \<open>A two-of-two wallet, and the same request naming one signer address twice.\<close>

definition ex_signer :: "string \<Rightarrow> signer_input" where
  "ex_signer a = \<lparr> in_signer_address = a, in_signer_name = None, in_public_key = ''ed25519_pk'' \<rparr>"

definition ex_wallet_body :: wallet_body where
  "ex_wallet_body = \<lparr> b_wallet_name = ''Treasury'', b_required_signatures = Some 2,
                       b_total_signers = Some 2, b_wallet_address = ''addr1_treasury'',
                       b_script_hash = ''e0a1'', b_signers = [ex_signer ''addr1_s1'', ex_signer ''addr1_s2''] \<rparr>"

definition ex_wallet :: multi_sig_wallet where
  "ex_wallet = \<lparr> wallet_id = ''9b2e4c1a-0d3f-4e5a-8b7c-6d5e4f3a2b1c'', w_user_id = ''alice'',
                 wallet_name = ''Treasury'', required_signatures = 2, total_signers = 2,
                 wallet_address = ''addr1_treasury'', script_hash = ''e0a1'', w_is_active = True \<rparr>"

definition ex_wallet_signer :: "string \<Rightarrow> wallet_signer" where
  "ex_wallet_signer a = \<lparr> multi_sig_wallet_id = ''9b2e4c1a-0d3f-4e5a-8b7c-6d5e4f3a2b1c'',
                          signer_address = a, signer_name = None, public_key = ''ed25519_pk'',
                          is_verified = False \<rparr>"

definition ex_wallet_db :: wallet_db where
  "ex_wallet_db = \<lparr> multi_sig_wallets = [], wallet_signers = [] \<rparr>"

text \<open>Two states of the billing tables are the same up to timestamps when they agree once
  every \<^verbatim>\<open>updated_at\<close> is cleared.\<close>

definition without_timestamps :: "billing \<Rightarrow> billing" where
  "without_timestamps db =
     \<lparr> payment_transactions = map (\<lambda>r. r\<lparr>pt_updated_at := 0\<rparr>) (payment_transactions db),
       user_subscriptions = map (\<lambda>r. r\<lparr>us_updated_at := 0\<rparr>) (user_subscriptions db) \<rparr>"

text \<open>One pending payment and one trial subscription; an event for each; a stand-in for the
  library's verification that accepts a single signature.\<close>

definition ex_payment :: payment_transaction where
  "ex_payment = \<lparr> pt_user_id = ''alice'', stripe_payment_intent_id = ''pi_1'', amount_cents = 999,
                  pt_status = ''pending'', pt_updated_at = 7000000 \<rparr>"

definition ex_subscription :: user_subscription where
  "ex_subscription = \<lparr> us_user_id = ''alice'', stripe_customer_id = ''cus_1'',
                       stripe_subscription_id = None, us_status = ''trialing'',
                       us_current_period_start = None, us_current_period_end = None,
                       us_cancel_at_period_end = False, us_updated_at = 7000000 \<rparr>"

text \<open>The subscription once the event \<open>ex_subscription_event\<close> below is applied at time \<open>t\<close>.\<close>

definition ex_subscribed :: "timestamp \<Rightarrow> user_subscription" where
  "ex_subscribed t = \<lparr> us_user_id = ''alice'', stripe_customer_id = ''cus_1'',
                       stripe_subscription_id = Some ''sub_1'', us_status = ''active'',
                       us_current_period_start = Some 7000000, us_current_period_end = Some 9000000,
                       us_cancel_at_period_end = False, us_updated_at = t \<rparr>"

definition ex_billing :: billing where
  "ex_billing = \<lparr> payment_transactions = [ex_payment], user_subscriptions = [ex_subscription] \<rparr>"

definition ex_payment_event :: stripe_event where
  "ex_payment_event =
     \<lparr> event_type = ''payment_intent.succeeded'',
       event_object = \<lparr> obj_id = ''pi_1'', customer = ''cus_1'', obj_status = ''succeeded'',
                        current_period_start = 0, current_period_end = 0,
                        cancel_at_period_end = False \<rparr> \<rparr>"

definition ex_subscription_event :: stripe_event where
  "ex_subscription_event =
     \<lparr> event_type = ''customer.subscription.updated'',
       event_object = \<lparr> obj_id = ''sub_1'', customer = ''cus_1'', obj_status = ''active'',
                        current_period_start = 7000, current_period_end = 9000,
                        cancel_at_period_end = False \<rparr> \<rparr>"

definition ex_cfg :: webhook_config where
  "ex_cfg = \<lparr> stripe_configured = True, webhookSecret = Some ''whsec_1'' \<rparr>"

definition ex_constructEvent :: "string \<Rightarrow> string option \<Rightarrow> string \<Rightarrow> stripe_event option" where
  "ex_constructEvent body signature secret =
     (if signature = Some ''sig_payment'' \<and> secret = ''whsec_1'' then Some ex_payment_event
      else if signature = Some ''sig_subscription'' \<and> secret = ''whsec_1'' then Some ex_subscription_event
      else None)"

section \<open>Properties of the sponsorship handlers\<close>

lemmas ex_defs = ex_env_def ex_tx_def ex_config_def ex_rate_policy_def ex_amount_policy_def
  ex_gasless_def ex_db_def ex_body_def ex_new_def

lemmas sponsor_defs = sponsor_def sponsor_valid_def select_transaction_def single_def
  select_policies_def rate_limit_exceeded_def select_recent_def recent_gasless_def rpc_nonce_def
  generate_transaction_nonce_def new_gasless_def Let_def

lemma isUUID_ex_tid: "isUUID ex_tid"
  by (simp add: isUUID_def ex_tid_def isHexDigit_def)

lemma policy_loop_append:
  "policy_loop e db uid fee i (xs @ ys) =
     (case policy_loop e db uid fee i xs of
        Some r \<Rightarrow> Some r
      | None \<Rightarrow> policy_loop e db uid fee (i + length xs) ys)"
  by (induction xs arbitrary: i) (auto split: option.splits)

lemma rate_limit_loop_append:
  "rate_limit_loop e db uid i (xs @ ys) =
     (case rate_limit_loop e db uid i xs of
        Some r \<Rightarrow> Some r
      | None \<Rightarrow> rate_limit_loop e db uid (i + length xs) ys)"
  by (induction xs arbitrary: i) (auto split: option.splits)

lemma rate_limit_exceeded_read:
  "\<not> fails e (SelectRecent i) \<Longrightarrow>
   rate_limit_exceeded e db uid i config =
     (max_transactions config \<le> int (length (recent_gasless db uid (now e - hours config * 60 * 60 * 1000))))"
  by (simp add: rate_limit_exceeded_def select_recent_def)

lemma rate_limit_exceeded_failed_read:
  "fails e (SelectRecent i) \<Longrightarrow> rate_limit_exceeded e db uid i config = (max_transactions config \<le> 0)"
  by (simp add: rate_limit_exceeded_def select_recent_def)

lemma sponsor_denied:
  assumes "policy_loop e db uid (the (estimated_fee b)) 0
             (case select_policies e db uid of None \<Rightarrow> [] | Some ps \<Rightarrow> ps) = Some (c, m)"
  shows "\<exists>code msg. sponsor e db uid b = (Err_json code msg, db)"
  using assms by (simp add: sponsor_def Let_def split: option.splits)

lemma sponsor_route_denied:
  assumes "rate_limit_loop e db uid 0
             (case select_policies e db uid of None \<Rightarrow> [] | Some ps \<Rightarrow> ps) = Some (c, m)"
  shows "\<exists>code msg. sponsor_route e db (Some uid) b = (Err_json code msg, db)"
  using assms by (simp add: sponsor_route_def Let_def split: option.splits)

lemma sponsor_passed:
  assumes "sponsor_valid b" and "select_transaction e db (transaction_id b) uid = Some t"
      and "policy_loop e db uid (the (estimated_fee b)) 0
             (case select_policies e db uid of None \<Rightarrow> [] | Some ps \<Rightarrow> ps) = None"
      and "rpc_nonce e db uid = Some r" and "\<not> fails e InsertGasless"
  shows "\<exists>row. sponsor e db uid b =
           (Ok_json 200 row, db\<lparr>gasless_transactions := gasless_transactions db @ [row]\<rparr>)"
  using assms by (simp add: sponsor_def Let_def)


lemma sponsor_Ok:
  assumes "sponsor e db uid b = (Ok_json code row, db')"
  shows "\<exists>fee r. estimated_fee b = Some fee \<and> generate_transaction_nonce db uid = Some r \<and>
        row = new_gasless e uid (transaction_id b) fee (if r = 0 then 1 else r) \<and>
        db' = db\<lparr>gasless_transactions := gasless_transactions db @ [row]\<rparr> \<and> code = 200"
  using assms
  by (auto simp: sponsor_def sponsor_valid_def rpc_nonce_def Let_def
           split: if_splits option.splits prod.splits)

lemma sponsor_appends:
  "\<exists>new. gasless_transactions (snd (sponsor e db uid b)) = gasless_transactions db @ new \<and>
         list_all (\<lambda>g. g_status g = ''sponsored'') new"
proof (cases "\<exists>code row. fst (sponsor e db uid b) = Ok_json code row")
  case True
  then obtain code row where "sponsor e db uid b = (Ok_json code row, snd (sponsor e db uid b))"
    by (metis prod.collapse)
  from sponsor_Ok [OF this] show ?thesis
    by (auto simp: new_gasless_def)
next
  case False
  then have "snd (sponsor e db uid b) = db"
    by (auto simp: sponsor_def Let_def split: if_splits option.splits prod.splits)
  then show ?thesis by simp
qed

lemma sponsor_route_appends:
  "\<exists>new. gasless_transactions (snd (sponsor_route e db user b)) = gasless_transactions db @ new \<and>
         list_all (\<lambda>g. g_status g = ''sponsored'') new"
  by (auto simp: sponsor_route_def Let_def new_gasless_def split: if_splits option.splits prod.splits)



text \<open>
  \<^bold>\<open>C2, as amended.\<close> The policy evaluation fails open. When the read of the
  user's policies fails, the sponsor handlers evaluate no policy: a valid request for one
  of the caller's transactions is sponsored whenever the insert succeeds (and, in the
  handler of the API server, the nonce call). When the read of the recent history fails for
  a rate-limit policy that allows at least one sponsorship, the count is taken to be 0 and
  that policy lets the request pass. The policy middleware calls \<^verbatim>\<open>next()\<close> when
  its read of the policies fails.
\<close>

theorem policy_read_failure_fails_open:
  "(fails e SelectPolicies \<and> sponsor_valid b \<and> select_transaction e db (transaction_id b) uid \<noteq> None \<and>
    rpc_nonce e db uid \<noteq> None \<and> \<not> fails e InsertGasless
      \<longrightarrow> (\<exists>row. sponsor e db uid b =
             (Ok_json 200 row, db\<lparr>gasless_transactions := gasless_transactions db @ [row]\<rparr>))) \<and>
   (fails e SelectPolicies \<and> isUUID (transaction_id b) \<and>
    select_transaction e db (transaction_id b) uid \<noteq> None \<and> \<not> fails e InsertGasless
      \<longrightarrow> (\<exists>row. sponsor_route e db (Some uid) b =
             (Ok_json 200 row, db\<lparr>gasless_transactions := gasless_transactions db @ [row]\<rparr>))) \<and>
   (policy_type p = ''rate_limit'' \<and> fails e (SelectRecent i) \<and> 1 \<le> max_transactions (policy_config p)
      \<longrightarrow> policy_loop e db uid fee i (p # rest) = policy_loop e db uid fee (Suc i) rest \<and>
          rate_limit_loop e db uid i (p # rest) = rate_limit_loop e db uid (Suc i) rest) \<and>
   (fails e SelectPolicies \<longrightarrow> validateSecurityPolicies e db logs currentHour req = Next)"
proof -
  have 1: "\<exists>row. sponsor e db uid b =
             (Ok_json 200 row, db\<lparr>gasless_transactions := gasless_transactions db @ [row]\<rparr>)"
    if "fails e SelectPolicies" "sponsor_valid b" "select_transaction e db (transaction_id b) uid \<noteq> None"
       "rpc_nonce e db uid \<noteq> None" "\<not> fails e InsertGasless"
  proof -
    from that(3,4) obtain t r where "select_transaction e db (transaction_id b) uid = Some t"
      "rpc_nonce e db uid = Some r" by auto
    moreover have "policy_loop e db uid (the (estimated_fee b)) 0
             (case select_policies e db uid of None \<Rightarrow> [] | Some ps \<Rightarrow> ps) = None"
      using that(1) by (simp add: select_policies_def)
    ultimately show ?thesis using that(2,5) by (intro sponsor_passed)
  qed
  have 2: "\<exists>row. sponsor_route e db (Some uid) b =
             (Ok_json 200 row, db\<lparr>gasless_transactions := gasless_transactions db @ [row]\<rparr>)"
    if "fails e SelectPolicies" "isUUID (transaction_id b)"
       "select_transaction e db (transaction_id b) uid \<noteq> None" "\<not> fails e InsertGasless"
    using that by (auto simp: sponsor_route_def select_policies_def Let_def)
  have 3: "policy_loop e db uid fee i (p # rest) = policy_loop e db uid fee (Suc i) rest \<and>
           rate_limit_loop e db uid i (p # rest) = rate_limit_loop e db uid (Suc i) rest"
    if "policy_type p = ''rate_limit''" "fails e (SelectRecent i)" "1 \<le> max_transactions (policy_config p)"
    using that by (simp add: rate_limit_exceeded_failed_read)
  have 4: "validateSecurityPolicies e db logs currentHour req = Next" if "fails e SelectPolicies"
    using that by (simp add: validateSecurityPolicies_def select_policies_def split: option.splits)
  from 1 2 3 4 show ?thesis by blast
qed

theorem policy_read_failure_fails_open_witness:
  "fails (ex_env\<lparr>fails := (\<lambda>c. c = SelectPolicies)\<rparr>) SelectPolicies \<and>
   sponsor_valid ex_body \<and>
   (\<exists>row. sponsor (ex_env\<lparr>fails := (\<lambda>c. c = SelectPolicies)\<rparr>) ex_db ''alice'' ex_body =
      (Ok_json 200 row, ex_db\<lparr>gasless_transactions := gasless_transactions ex_db @ [row]\<rparr>)) \<and>
   (\<exists>row. sponsor_route (ex_env\<lparr>fails := (\<lambda>c. c = SelectPolicies)\<rparr>) ex_db (Some ''alice'') ex_body =
      (Ok_json 200 row, ex_db\<lparr>gasless_transactions := gasless_transactions ex_db @ [row]\<rparr>)) \<and>
   policy_type ex_rate_policy = ''rate_limit'' \<and>
   fails (ex_env\<lparr>fails := (\<lambda>c. c = SelectRecent 0)\<rparr>) (SelectRecent 0) \<and>
   1 \<le> max_transactions (policy_config ex_rate_policy) \<and>
   policy_loop (ex_env\<lparr>fails := (\<lambda>c. c = SelectRecent 0)\<rparr>) ex_db ''alice'' 200000 0 [ex_rate_policy] = None \<and>
   rate_limit_loop (ex_env\<lparr>fails := (\<lambda>c. c = SelectRecent 0)\<rparr>) ex_db ''alice'' 0 [ex_rate_policy] = None \<and>
   validateSecurityPolicies (ex_env\<lparr>fails := (\<lambda>c. c = SelectPolicies)\<rparr>) ex_db []
     12 \<lparr>req_user = Some ''alice'', req_method = ''POST'', req_path = ''/sponsor'', req_ip = ''10.0.0.1''\<rparr> = Next"
proof -
  let ?e = "ex_env\<lparr>fails := (\<lambda>c. c = SelectPolicies)\<rparr>"
  let ?e' = "ex_env\<lparr>fails := (\<lambda>c. c = SelectRecent 0)\<rparr>"
  let ?req = "\<lparr>req_user = Some ''alice'', req_method = ''POST'', req_path = ''/sponsor'', req_ip = ''10.0.0.1''\<rparr>"
  have h: "fails ?e SelectPolicies" "sponsor_valid ex_body" "isUUID (transaction_id ex_body)"
    "select_transaction ?e ex_db (transaction_id ex_body) ''alice'' \<noteq> None"
    "rpc_nonce ?e ex_db ''alice'' \<noteq> None" "\<not> fails ?e InsertGasless"
    by (simp_all add: sponsor_defs isUUID_ex_tid ex_defs)
  have h': "policy_type ex_rate_policy = ''rate_limit''" "fails ?e' (SelectRecent 0)"
    "1 \<le> max_transactions (policy_config ex_rate_policy)"
    by (simp_all add: ex_defs)
  from policy_read_failure_fails_open
         [where e = ?e and b = ex_body and db = ex_db and uid = "''alice''" and logs = "[]"
            and currentHour = 12 and req = ?req and p = ex_rate_policy and i = 0 and fee = 200000
            and rest = "[]"]
       policy_read_failure_fails_open
         [where e = ?e' and b = ex_body and db = ex_db and uid = "''alice''" and logs = "[]"
            and currentHour = 12 and req = ?req and p = ex_rate_policy and i = 0 and fee = 200000
            and rest = "[]"]
       h h'
  show ?thesis by simp
qed

text \<open>The property as the specification states it fails: the user has an exhausted rate
  limit, the read of the policies fails, and the request is sponsored.\<close>

theorem policy_read_failure_counterexample:
  "fails (ex_env\<lparr>fails := (\<lambda>c. c = SelectPolicies)\<rparr>) SelectPolicies \<and>
   sponsor (ex_env\<lparr>fails := (\<lambda>c. c = SelectPolicies)\<rparr>) ex_db ''alice'' ex_body =
     (Ok_json 200 (ex_new 200000 2), ex_db\<lparr>gasless_transactions := [ex_gasless, ex_new 200000 2]\<rparr>)"
  by (simp add: sponsor_defs isUUID_ex_tid ex_defs)

text \<open>
  \<^bold>\<open>C3, as amended.\<close> Let the read of the caller's active policies succeed and
  return a rate-limit policy whose own read of the recent history succeeds and finds at
  least \<^verbatim>\<open>max_transactions\<close> sponsorships of the caller created at or after the cutoff
  \<^verbatim>\<open>now - hours\<close>. Then both sponsor handlers answer with an error and create no row.
  The answer is the 429 rate-limit error when the request gets as far as this policy: it
  passes validation (the route handler: it names a well-formed identifier), the transaction
  is found and no policy earlier in the list denies the request.
\<close>

theorem rate_limit_denies:
  assumes pol: "select_policies e db uid = Some (pre @ p # rest)"
      and ty: "policy_type p = ''rate_limit''"
      and rd: "\<not> fails e (SelectRecent (length pre))"
      and cnt: "max_transactions (policy_config p)
                  \<le> int (length (recent_gasless db uid (now e - hours (policy_config p) * 60 * 60 * 1000)))"
  shows "(\<exists>code msg. sponsor e db uid b = (Err_json code msg, db)) \<and>
         (sponsor_valid b \<and> select_transaction e db (transaction_id b) uid \<noteq> None \<and>
          policy_loop e db uid (the (estimated_fee b)) 0 pre = None
            \<longrightarrow> sponsor e db uid b = (Err_json 429 ''Rate limit exceeded'', db)) \<and>
         (\<exists>code msg. sponsor_route e db (Some uid) b = (Err_json code msg, db)) \<and>
         (isUUID (transaction_id b) \<and> select_transaction e db (transaction_id b) uid \<noteq> None \<and>
          rate_limit_loop e db uid 0 pre = None
            \<longrightarrow> sponsor_route e db (Some uid) b = (Err_json 429 ''Rate limit exceeded'', db))"
proof -
  have ex: "rate_limit_exceeded e db uid (length pre) (policy_config p)"
    using rd cnt by (simp add: rate_limit_exceeded_read)
  have at_p: "policy_loop e db uid fee (length pre) (p # rest) = Some (429, ''Rate limit exceeded'')" for fee
    using ty ex by simp
  have at_p': "rate_limit_loop e db uid (length pre) (p # rest) = Some (429, ''Rate limit exceeded'')"
    using ty ex by simp
  have some: "\<exists>c m. policy_loop e db uid fee 0 (pre @ p # rest) = Some (c, m)" for fee
    using at_p [of fee] by (auto simp: policy_loop_append split: option.splits)
  have some': "\<exists>c m. rate_limit_loop e db uid 0 (pre @ p # rest) = Some (c, m)"
    using at_p' by (auto simp: rate_limit_loop_append split: option.splits)
  have 1: "\<exists>code msg. sponsor e db uid b = (Err_json code msg, db)"
    using some [of "the (estimated_fee b)"] sponsor_denied [of e db uid b] pol by auto
  have 3: "\<exists>code msg. sponsor_route e db (Some uid) b = (Err_json code msg, db)"
    using some' sponsor_route_denied [of e db uid] pol by auto
  have 2: "sponsor e db uid b = (Err_json 429 ''Rate limit exceeded'', db)"
    if "sponsor_valid b" "select_transaction e db (transaction_id b) uid \<noteq> None"
       "policy_loop e db uid (the (estimated_fee b)) 0 pre = None"
    using that pol at_p by (auto simp: sponsor_def Let_def policy_loop_append)
  have 4: "sponsor_route e db (Some uid) b = (Err_json 429 ''Rate limit exceeded'', db)"
    if "isUUID (transaction_id b)" "select_transaction e db (transaction_id b) uid \<noteq> None"
       "rate_limit_loop e db uid 0 pre = None"
    using that pol at_p' by (auto simp: sponsor_route_def Let_def rate_limit_loop_append)
  from 1 2 3 4 show ?thesis by blast
qed

theorem rate_limit_denies_witness:
  "select_policies ex_env ex_db ''alice'' = Some ([] @ ex_rate_policy # []) \<and>
   policy_type ex_rate_policy = ''rate_limit'' \<and>
   \<not> fails ex_env (SelectRecent (length ([] :: security_policy list))) \<and>
   recent_gasless ex_db ''alice'' (now ex_env - hours (policy_config ex_rate_policy) * 60 * 60 * 1000) = [ex_gasless] \<and>
   max_transactions (policy_config ex_rate_policy) = 1 \<and>
   sponsor_valid ex_body \<and>
   select_transaction ex_env ex_db (transaction_id ex_body) ''alice'' = Some ex_tx \<and>
   sponsor ex_env ex_db ''alice'' ex_body = (Err_json 429 ''Rate limit exceeded'', ex_db) \<and>
   sponsor_route ex_env ex_db (Some ''alice'') ex_body = (Err_json 429 ''Rate limit exceeded'', ex_db)"
proof -
  have h: "select_policies ex_env ex_db ''alice'' = Some ([] @ ex_rate_policy # [])"
    "policy_type ex_rate_policy = ''rate_limit''"
    "\<not> fails ex_env (SelectRecent (length ([] :: security_policy list)))"
    by (simp_all add: select_policies_def ex_defs)
  have r: "recent_gasless ex_db ''alice'' (now ex_env - hours (policy_config ex_rate_policy) * 60 * 60 * 1000) = [ex_gasless]"
    "max_transactions (policy_config ex_rate_policy) = 1"
    by (simp_all add: recent_gasless_def ex_defs)
  then have c: "max_transactions (policy_config ex_rate_policy)
      \<le> int (length (recent_gasless ex_db ''alice'' (now ex_env - hours (policy_config ex_rate_policy) * 60 * 60 * 1000)))"
    by simp
  have v: "sponsor_valid ex_body" "isUUID (transaction_id ex_body)"
    "select_transaction ex_env ex_db (transaction_id ex_body) ''alice'' = Some ex_tx"
    by (simp_all add: sponsor_valid_def select_transaction_def single_def isUUID_ex_tid ex_defs)
  from rate_limit_denies [OF h c, of ex_body] v h r show ?thesis by simp
qed

text \<open>The property as the specification states it fails when the read of the recent
  history fails: the limit of one sponsorship per hour is used up, and the request is
  sponsored all the same.\<close>

theorem rate_limit_counterexample:
  "select_policies (ex_env\<lparr>fails := (\<lambda>c. c = SelectRecent 0)\<rparr>) ex_db ''alice'' = Some [ex_rate_policy] \<and>
   policy_type ex_rate_policy = ''rate_limit'' \<and>
   recent_gasless ex_db ''alice'' (now ex_env - hours (policy_config ex_rate_policy) * 60 * 60 * 1000) = [ex_gasless] \<and>
   max_transactions (policy_config ex_rate_policy) = 1 \<and>
   sponsor (ex_env\<lparr>fails := (\<lambda>c. c = SelectRecent 0)\<rparr>) ex_db ''alice'' ex_body =
     (Ok_json 200 (ex_new 200000 2), ex_db\<lparr>gasless_transactions := [ex_gasless, ex_new 200000 2]\<rparr>)"
  by (simp add: sponsor_defs isUUID_ex_tid ex_defs)



text \<open>
  \<^bold>\<open>C6, as amended.\<close> A read returns the caller's sponsorships exactly as they are
  stored: nothing compares \<^verbatim>\<open>expires_at\<close> with the clock, so an expired row is
  reported with its stored status. No handler changes a stored sponsorship: the sponsor
  handlers only append rows of status \<^verbatim>\<open>sponsored\<close>, and the status endpoint of the
  transactions leaves the table alone. So no sponsorship, expired or not, is moved to
  \<^verbatim>\<open>executed\<close>.
\<close>

theorem reads_report_stored_status:
  "(get_gasless_transactions e db uid = Ok_json code rows
      \<longrightarrow> set rows = set (filter (\<lambda>g. g_user_id g = uid) (gasless_transactions db)) \<and>
          length rows = length (filter (\<lambda>g. g_user_id g = uid) (gasless_transactions db))) \<and>
   (\<exists>new. gasless_transactions (snd (sponsor e db uid b)) = gasless_transactions db @ new \<and>
          list_all (\<lambda>g. g_status g = ''sponsored'') new) \<and>
   (\<exists>new. gasless_transactions (snd (sponsor_route e db user b)) = gasless_transactions db @ new \<and>
          list_all (\<lambda>g. g_status g = ''sponsored'') new) \<and>
   gasless_transactions (snd (patch_status e db uid tid s)) = gasless_transactions db"
proof -
  have 1: "set rows = set (filter (\<lambda>g. g_user_id g = uid) (gasless_transactions db)) \<and>
          length rows = length (filter (\<lambda>g. g_user_id g = uid) (gasless_transactions db))"
    if "get_gasless_transactions e db uid = Ok_json code rows"
    using that by (auto simp: get_gasless_transactions_def split: if_splits)
  have 4: "gasless_transactions (snd (patch_status e db uid tid s)) = gasless_transactions db"
    by (simp add: patch_status_def Let_def split: option.splits)
  from 1 sponsor_appends [of e db uid b] sponsor_route_appends [of e db user b] 4
  show ?thesis by blast
qed

theorem reads_report_stored_status_witness:
  "get_gasless_transactions ex_env ex_db ''alice'' = Ok_json 200 [ex_gasless] \<and>
   set [ex_gasless] = set (filter (\<lambda>g. g_user_id g = ''alice'') (gasless_transactions ex_db))"
proof -
  have "get_gasless_transactions ex_env ex_db ''alice'' = Ok_json 200 [ex_gasless]"
    by (simp add: get_gasless_transactions_def ex_defs)
  with reads_report_stored_status [of ex_env ex_db "''alice''" 200 "[ex_gasless]"]
  show ?thesis by blast
qed

text \<open>The property as the specification states it fails: a sponsorship that expired half
  an hour before the read and was never executed is reported as \<^verbatim>\<open>sponsored\<close>, not
  as \<^verbatim>\<open>failed\<close>.\<close>

theorem expired_read_counterexample:
  "expires_at ex_gasless < now ex_env \<and> g_status ex_gasless \<noteq> ''executed'' \<and>
   get_gasless_transactions ex_env ex_db ''alice'' = Ok_json 200 [ex_gasless] \<and>
   g_status ex_gasless = ''sponsored'' \<and> g_status ex_gasless \<noteq> ''failed''"
  by (simp add: get_gasless_transactions_def ex_defs)

section \<open>Properties of the status endpoint\<close>




section \<open>Properties of token creation\<close>



section \<open>Properties of wallet creation\<close>

lemmas wallet_ex_defs = ex_env_def ex_signer_def ex_wallet_body_def ex_wallet_def
  ex_wallet_signer_def ex_wallet_db_def

lemmas wallet_defs = create_wallet_def wallet_valid_def insert_wallet_def insert_signers_def
  delete_wallet_def signer_key_def Let_def

lemma insert_wallet_fresh:
  assumes "insert_wallet e db w = Some db1"
  shows "db1 = db\<lparr>multi_sig_wallets := multi_sig_wallets db @ [w]\<rparr> \<and>
         filter (\<lambda>x. wallet_id x \<noteq> wallet_id w) (multi_sig_wallets db) = multi_sig_wallets db \<and>
         wallet_id w \<notin> set (map wallet_id (multi_sig_wallets db))"
  using assms by (auto simp: insert_wallet_def filter_id_conv split: if_splits)

lemma delete_inserted_wallet:
  assumes ins: "insert_wallet e db w = Some db1" and del: "\<not> fails e DeleteWallet"
  shows "multi_sig_wallets (delete_wallet e db1 (wallet_id w)) = multi_sig_wallets db"
    and "signers_reference_wallets db \<Longrightarrow> delete_wallet e db1 (wallet_id w) = db"
proof -
  note f = insert_wallet_fresh [OF ins]
  show 1: "multi_sig_wallets (delete_wallet e db1 (wallet_id w)) = multi_sig_wallets db"
    using f del by (simp add: delete_wallet_def)
  assume fk: "signers_reference_wallets db"
  have "multi_sig_wallet_id s \<noteq> wallet_id w" if "s \<in> set (wallet_signers db)" for s
  proof
    assume "multi_sig_wallet_id s = wallet_id w"
    moreover from fk that have "multi_sig_wallet_id s \<in> set (map wallet_id (multi_sig_wallets db))"
      by (simp add: signers_reference_wallets_def list_all_iff)
    ultimately show False using f by simp
  qed
  then have "filter (\<lambda>s. multi_sig_wallet_id s \<noteq> wallet_id w) (wallet_signers db) = wallet_signers db"
    by (simp add: filter_id_conv)
  with f del show "delete_wallet e db1 (wallet_id w) = db"
    by (simp add: delete_wallet_def)
qed

text \<open>
  \<^bold>\<open>C10, as amended.\<close> A request whose \<^verbatim>\<open>required_signatures\<close> exceeds its
  \<^verbatim>\<open>total_signers\<close>, or whose number of signers differs from \<^verbatim>\<open>total_signers\<close>, is
  answered 400 and writes nothing. When the handler answers with an error and its rollback
  delete has not failed, the wallet table is as before the request, and so are both tables
  when every stored signer belongs to a stored wallet. A success appends the wallet row
  and one signer row per signer of the request, all carrying the wallet's identifier, with
  \<^verbatim>\<open>required_signatures\<close> at most \<^verbatim>\<open>total_signers\<close>.
\<close>

theorem create_wallet_rollback:
  "(b_required_signatures b = Some r \<and> b_total_signers b = Some t \<and>
    (t < r \<or> int (length (b_signers b)) \<noteq> t)
      \<longrightarrow> (\<exists>msg. create_wallet e db uid b = (Err_json 400 msg, db))) \<and>
   (create_wallet e db uid b = (Err_json code msg, db') \<and> \<not> fails e DeleteWallet
      \<longrightarrow> multi_sig_wallets db' = multi_sig_wallets db \<and>
          (signers_reference_wallets db \<longrightarrow> db' = db)) \<and>
   (create_wallet e db uid b = (Ok_json code' (w, signersData), db')
      \<longrightarrow> code' = 201 \<and>
          db' = db\<lparr>multi_sig_wallets := multi_sig_wallets db @ [w],
                   wallet_signers := wallet_signers db @ signersData\<rparr> \<and>
          int (length signersData) = total_signers w \<and>
          required_signatures w \<le> total_signers w \<and>
          list_all (\<lambda>s. multi_sig_wallet_id s = wallet_id w) signersData)"
proof -
  have 1: "\<exists>msg. create_wallet e db uid b = (Err_json 400 msg, db)"
    if "b_required_signatures b = Some r" "b_total_signers b = Some t"
       "t < r \<or> int (length (b_signers b)) \<noteq> t"
    using that by (auto simp: create_wallet_def Let_def)
  have 2: "multi_sig_wallets db' = multi_sig_wallets db \<and> (signers_reference_wallets db \<longrightarrow> db' = db)"
    if run: "create_wallet e db uid b = (Err_json code msg, db')" and del: "\<not> fails e DeleteWallet"
  proof (cases "msg = ''Failed to add signers''")
    case False
    with run have "db' = db"
      by (auto simp: create_wallet_def Let_def split: if_splits option.splits)
    then show ?thesis by simp
  next
    case True
    with run obtain w db1 where ins: "insert_wallet e db w = Some db1"
      and db': "db' = delete_wallet e db1 (wallet_id w)"
      by (auto simp: create_wallet_def Let_def split: if_splits option.splits)
    from delete_inserted_wallet [OF ins del] db' show ?thesis by simp
  qed
  have 3: "code' = 201 \<and>
          db' = db\<lparr>multi_sig_wallets := multi_sig_wallets db @ [w],
                   wallet_signers := wallet_signers db @ signersData\<rparr> \<and>
          int (length signersData) = total_signers w \<and>
          required_signatures w \<le> total_signers w \<and>
          list_all (\<lambda>s. multi_sig_wallet_id s = wallet_id w) signersData"
    if "create_wallet e db uid b = (Ok_json code' (w, signersData), db')"
    using that
    by (auto simp: create_wallet_def insert_wallet_def insert_signers_def Let_def list_all_iff
             split: if_splits option.splits)
  from 1 2 3 show ?thesis by blast
qed

theorem create_wallet_rollback_witness:
  "b_required_signatures (ex_wallet_body\<lparr>b_required_signatures := Some 3\<rparr>) = Some 3 \<and>
   b_total_signers (ex_wallet_body\<lparr>b_required_signatures := Some 3\<rparr>) = Some 2 \<and>
   create_wallet ex_env ex_wallet_db ''alice'' (ex_wallet_body\<lparr>b_required_signatures := Some 3\<rparr>) =
     (Err_json 400 ''Invalid configuration'', ex_wallet_db) \<and>
   create_wallet ex_env ex_wallet_db ''alice'' ex_wallet_body =
     (Ok_json 201 (ex_wallet, [ex_wallet_signer ''addr1_s1'', ex_wallet_signer ''addr1_s2'']),
      \<lparr> multi_sig_wallets = [ex_wallet],
        wallet_signers = [ex_wallet_signer ''addr1_s1'', ex_wallet_signer ''addr1_s2''] \<rparr>) \<and>
   required_signatures ex_wallet \<le> total_signers ex_wallet \<and>
   \<not> fails (ex_env\<lparr>new_id := ''5d0f7a3e-2b1c-4f6d-9e8a-1c2b3a4d5e6f''\<rparr>) DeleteWallet \<and>
   signers_reference_wallets
     \<lparr> multi_sig_wallets = [ex_wallet],
       wallet_signers = [ex_wallet_signer ''addr1_s1'', ex_wallet_signer ''addr1_s2''] \<rparr> \<and>
   create_wallet (ex_env\<lparr>new_id := ''5d0f7a3e-2b1c-4f6d-9e8a-1c2b3a4d5e6f''\<rparr>)
       \<lparr> multi_sig_wallets = [ex_wallet],
         wallet_signers = [ex_wallet_signer ''addr1_s1'', ex_wallet_signer ''addr1_s2''] \<rparr> ''alice''
       (ex_wallet_body\<lparr>b_wallet_address := ''addr1_reserve'',
                        b_signers := [ex_signer ''addr1_s1'', ex_signer ''addr1_s1'']\<rparr>) =
     (Err_json 400 ''Failed to add signers'',
      \<lparr> multi_sig_wallets = [ex_wallet],
        wallet_signers = [ex_wallet_signer ''addr1_s1'', ex_wallet_signer ''addr1_s2''] \<rparr>)"
proof -
  let ?db = "\<lparr> multi_sig_wallets = [ex_wallet],
        wallet_signers = [ex_wallet_signer ''addr1_s1'', ex_wallet_signer ''addr1_s2''] \<rparr>"
  let ?e = "ex_env\<lparr>new_id := ''5d0f7a3e-2b1c-4f6d-9e8a-1c2b3a4d5e6f''\<rparr>"
  let ?b = "ex_wallet_body\<lparr>b_wallet_address := ''addr1_reserve'',
                        b_signers := [ex_signer ''addr1_s1'', ex_signer ''addr1_s1'']\<rparr>"
  obtain resp db' where run: "create_wallet ?e ?db ''alice'' ?b = (resp, db')"
    by (cases "create_wallet ?e ?db ''alice'' ?b")
  have resp: "resp = Err_json 400 ''Failed to add signers''"
    using run by (simp add: create_wallet_def wallet_valid_def insert_wallet_def insert_signers_def
        signer_key_def Let_def wallet_ex_defs)
  have h: "\<not> fails ?e DeleteWallet" "signers_reference_wallets ?db"
    "b_required_signatures (ex_wallet_body\<lparr>b_required_signatures := Some 3\<rparr>) = Some 3"
    "b_total_signers (ex_wallet_body\<lparr>b_required_signatures := Some 3\<rparr>) = Some 2"
    by (simp_all add: signers_reference_wallets_def wallet_ex_defs)
  from create_wallet_rollback
         [of ?b 1 2 ?e ?db "''alice''" 400 "''Failed to add signers''" db']
       run resp h
  have d: "db' = ?db" by simp
  have b: "create_wallet ex_env ex_wallet_db ''alice'' ex_wallet_body =
     (Ok_json 201 (ex_wallet, [ex_wallet_signer ''addr1_s1'', ex_wallet_signer ''addr1_s2'']), ?db)"
    by (simp add: wallet_defs wallet_ex_defs)
  have c: "create_wallet ex_env ex_wallet_db ''alice'' (ex_wallet_body\<lparr>b_required_signatures := Some 3\<rparr>) =
     (Err_json 400 ''Invalid configuration'', ex_wallet_db)"
    using create_wallet_rollback
         [of "ex_wallet_body\<lparr>b_required_signatures := Some 3\<rparr>" 3 2 ex_env ex_wallet_db "''alice''"] h
    by (simp add: wallet_defs wallet_ex_defs)
  have e: "required_signatures ex_wallet \<le> total_signers ex_wallet"
    by (simp add: ex_wallet_def)
  from run resp d b c e h show ?thesis by simp
qed

text \<open>The property as the specification states it fails when the store stops answering
  after the wallet insert: the signer insert fails, the rollback delete fails as well, and
  the wallet row stays without signer rows.\<close>

theorem create_wallet_rollback_counterexample:
  "fails (ex_env\<lparr>fails := (\<lambda>c. c = InsertSigners \<or> c = DeleteWallet)\<rparr>) InsertSigners \<and>
   create_wallet (ex_env\<lparr>fails := (\<lambda>c. c = InsertSigners \<or> c = DeleteWallet)\<rparr>) ex_wallet_db ''alice'' ex_wallet_body =
     (Err_json 400 ''Failed to add signers'', \<lparr> multi_sig_wallets = [ex_wallet], wallet_signers = [] \<rparr>)"
  by (simp add: wallet_defs wallet_ex_defs)

section \<open>Properties of the payment webhook\<close>

lemmas billing_ex_defs = ex_env_def ex_payment_def ex_subscription_def ex_billing_def
  ex_payment_event_def ex_subscription_event_def ex_cfg_def ex_constructEvent_def

lemma update_payment_length:
  "length (payment_transactions (update_payment e db pid s)) = length (payment_transactions db)"
  "user_subscriptions (update_payment e db pid s) = user_subscriptions db"
  by (simp_all add: update_payment_def)

lemma update_subscription_length:
  "length (user_subscriptions (update_subscription e db obj)) = length (user_subscriptions db)"
  "payment_transactions (update_subscription e db obj) = payment_transactions db"
  by (simp_all add: update_subscription_def)

lemma cancel_subscription_length:
  "length (user_subscriptions (cancel_subscription e db sid)) = length (user_subscriptions db)"
  "payment_transactions (cancel_subscription e db sid) = payment_transactions db"
  by (simp_all add: cancel_subscription_def)

lemma handle_event_length:
  "length (payment_transactions (fst (handle_event e db ev))) = length (payment_transactions db) \<and>
   length (user_subscriptions (fst (handle_event e db ev))) = length (user_subscriptions db)"
  by (simp add: handle_event_def Let_def update_payment_length update_subscription_length
      cancel_subscription_length split: option.splits)

lemma update_payment_replay:
  assumes "fails e1 UpdatePayment \<longrightarrow> fails e2 UpdatePayment"
  shows "without_timestamps (update_payment e2 (update_payment e1 db pid s) pid s) =
         without_timestamps (update_payment e1 db pid s)"
  using assms by (auto simp: update_payment_def without_timestamps_def)

lemma cancel_subscription_replay:
  assumes "fails e1 UpdateSubscription \<longrightarrow> fails e2 UpdateSubscription"
  shows "without_timestamps (cancel_subscription e2 (cancel_subscription e1 db sid) sid) =
         without_timestamps (cancel_subscription e1 db sid)"
  using assms by (auto simp: cancel_subscription_def without_timestamps_def)

lemma update_subscription_replay:
  assumes "fails e1 UpdateSubscription \<longrightarrow> fails e2 UpdateSubscription"
  shows "without_timestamps (update_subscription e2 (update_subscription e1 db obj) obj) =
         without_timestamps (update_subscription e1 db obj)"
  using assms by (auto simp: update_subscription_def without_timestamps_def)

lemma select_subscription_after_update:
  assumes "select_subscription e1 db c = None" and "fails e1 SelectSubscription \<longrightarrow> fails e2 SelectSubscription"
  shows "select_subscription e2 db c = None"
  using assms by (auto simp: select_subscription_def split: if_splits)

lemma handle_event_replay:
  assumes H: "\<forall>c. fails e1 c \<longrightarrow> fails e2 c"
  shows "without_timestamps (fst (handle_event e2 (fst (handle_event e1 db ev)) ev)) =
         without_timestamps (fst (handle_event e1 db ev))"
proof -
  have p: "fails e1 UpdatePayment \<longrightarrow> fails e2 UpdatePayment"
    and u: "fails e1 UpdateSubscription \<longrightarrow> fails e2 UpdateSubscription"
    and s: "fails e1 SelectSubscription \<longrightarrow> fails e2 SelectSubscription"
    using H by blast+
  let ?c = "customer (event_object ev)"
  let ?o = "event_object ev"
  have sub: "without_timestamps
      (fst (case select_subscription e2
                   (fst (case select_subscription e1 db ?c of
                           None \<Rightarrow> (db, [SelectSubscription])
                         | Some x \<Rightarrow> (update_subscription e1 db ?o, [SelectSubscription, UpdateSubscription]))) ?c of
              None \<Rightarrow> (fst (case select_subscription e1 db ?c of
                           None \<Rightarrow> (db, [SelectSubscription])
                         | Some x \<Rightarrow> (update_subscription e1 db ?o, [SelectSubscription, UpdateSubscription])),
                        [SelectSubscription])
            | Some x \<Rightarrow> (update_subscription e2
                           (fst (case select_subscription e1 db ?c of
                                   None \<Rightarrow> (db, [SelectSubscription])
                                 | Some x \<Rightarrow> (update_subscription e1 db ?o, [SelectSubscription, UpdateSubscription]))) ?o,
                         [SelectSubscription, UpdateSubscription]))) =
     without_timestamps
      (fst (case select_subscription e1 db ?c of
              None \<Rightarrow> (db, [SelectSubscription])
            | Some x \<Rightarrow> (update_subscription e1 db ?o, [SelectSubscription, UpdateSubscription])))"
  proof (cases "select_subscription e1 db ?c")
    case None
    from select_subscription_after_update [OF None s]
    have "select_subscription e2 db ?c = None" .
    with None show ?thesis by simp
  next
    case (Some x)
    then show ?thesis
      using update_subscription_replay [OF u, of db ?o]
      by (simp split: option.splits)
  qed
  show ?thesis
    unfolding handle_event_def Let_def
    using update_payment_replay [OF p] cancel_subscription_replay [OF u] sub
    by simp
qed

text \<open>
  \<^bold>\<open>C7.\<close> Let the same request be delivered twice, the second delivery meeting the
  tables the first one left, and let every store call that failed during the first delivery
  fail again during the second (so in particular when no call of the first delivery
  failed, or when both deliveries meet the same failures). Then the second delivery leaves
  the tables as the first one did, up to the \<^verbatim>\<open>updated_at\<close> columns; no row is added or
  removed; and both deliveries get the same response.
\<close>

theorem webhook_replay_idempotent:
  assumes H: "\<forall>c. fails e1 c \<longrightarrow> fails e2 c"
      and first: "webhook_POST cfg constructEvent e1 db body signature = (r1, db1, calls1)"
      and second: "webhook_POST cfg constructEvent e2 db1 body signature = (r2, db2, calls2)"
  shows "without_timestamps db2 = without_timestamps db1 \<and>
         length (payment_transactions db2) = length (payment_transactions db) \<and>
         length (user_subscriptions db2) = length (user_subscriptions db) \<and>
         r2 = r1"
proof (cases "\<not> stripe_configured cfg \<or> webhookSecret cfg = None \<or> webhookSecret cfg = Some []")
  case True
  with first second show ?thesis by (auto simp: webhook_POST_def)
next
  case configured: False
  show ?thesis
  proof (cases "constructEvent body signature (the (webhookSecret cfg))")
    case None
    with configured first second show ?thesis by (auto simp: webhook_POST_def)
  next
    case (Some ev)
    from configured Some first have 1: "db1 = fst (handle_event e1 db ev)" "r1 = Ok_json 200 ()"
      by (auto simp: webhook_POST_def split: prod.splits)
    from configured Some second have 2: "db2 = fst (handle_event e2 db1 ev)" "r2 = Ok_json 200 ()"
      by (auto simp: webhook_POST_def split: prod.splits)
    from handle_event_replay [OF H, of db ev] 1 2
    have "without_timestamps db2 = without_timestamps db1" by simp
    moreover from handle_event_length [of e1 db ev] handle_event_length [of e2 db1 ev] 1 2
    have "length (payment_transactions db2) = length (payment_transactions db)"
      "length (user_subscriptions db2) = length (user_subscriptions db)" by simp_all
    ultimately show ?thesis using 1 2 by simp
  qed
qed

theorem webhook_replay_idempotent_witness:
  "webhook_POST ex_cfg ex_constructEvent ex_env ex_billing ''{}'' (Some ''sig_payment'') =
     (Ok_json 200 (),
      ex_billing\<lparr>payment_transactions := [ex_payment\<lparr>pt_status := ''succeeded'', pt_updated_at := 7200000\<rparr>]\<rparr>,
      [UpdatePayment]) \<and>
   webhook_POST ex_cfg ex_constructEvent (ex_env\<lparr>now := 7300000\<rparr>)
       (ex_billing\<lparr>payment_transactions := [ex_payment\<lparr>pt_status := ''succeeded'', pt_updated_at := 7200000\<rparr>]\<rparr>)
       ''{}'' (Some ''sig_payment'') =
     (Ok_json 200 (),
      ex_billing\<lparr>payment_transactions := [ex_payment\<lparr>pt_status := ''succeeded'', pt_updated_at := 7300000\<rparr>]\<rparr>,
      [UpdatePayment]) \<and>
   without_timestamps
     (ex_billing\<lparr>payment_transactions := [ex_payment\<lparr>pt_status := ''succeeded'', pt_updated_at := 7300000\<rparr>]\<rparr>) =
   without_timestamps
     (ex_billing\<lparr>payment_transactions := [ex_payment\<lparr>pt_status := ''succeeded'', pt_updated_at := 7200000\<rparr>]\<rparr>) \<and>
   webhook_POST ex_cfg ex_constructEvent ex_env ex_billing ''{}'' (Some ''sig_subscription'') =
     (Ok_json 200 (), ex_billing\<lparr>user_subscriptions := [ex_subscribed 7200000]\<rparr>,
      [SelectSubscription, UpdateSubscription]) \<and>
   webhook_POST ex_cfg ex_constructEvent (ex_env\<lparr>now := 7300000\<rparr>)
       (ex_billing\<lparr>user_subscriptions := [ex_subscribed 7200000]\<rparr>) ''{}'' (Some ''sig_subscription'') =
     (Ok_json 200 (), ex_billing\<lparr>user_subscriptions := [ex_subscribed 7300000]\<rparr>,
      [SelectSubscription, UpdateSubscription]) \<and>
   without_timestamps (ex_billing\<lparr>user_subscriptions := [ex_subscribed 7300000]\<rparr>) =
   without_timestamps (ex_billing\<lparr>user_subscriptions := [ex_subscribed 7200000]\<rparr>)"
proof -
  let ?db1 = "ex_billing\<lparr>payment_transactions := [ex_payment\<lparr>pt_status := ''succeeded'', pt_updated_at := 7200000\<rparr>]\<rparr>"
  let ?db2 = "ex_billing\<lparr>payment_transactions := [ex_payment\<lparr>pt_status := ''succeeded'', pt_updated_at := 7300000\<rparr>]\<rparr>"
  have H: "\<forall>c. fails ex_env c \<longrightarrow> fails (ex_env\<lparr>now := 7300000\<rparr>) c"
    by simp
  have a: "webhook_POST ex_cfg ex_constructEvent ex_env ex_billing ''{}'' (Some ''sig_payment'') =
     (Ok_json 200 (), ?db1, [UpdatePayment])"
    by (simp add: webhook_POST_def handle_event_def update_payment_def Let_def billing_ex_defs)
  have b: "webhook_POST ex_cfg ex_constructEvent (ex_env\<lparr>now := 7300000\<rparr>) ?db1 ''{}'' (Some ''sig_payment'') =
     (Ok_json 200 (), ?db2, [UpdatePayment])"
    by (simp add: webhook_POST_def handle_event_def update_payment_def Let_def billing_ex_defs)
  have c: "webhook_POST ex_cfg ex_constructEvent ex_env ex_billing ''{}'' (Some ''sig_subscription'') =
     (Ok_json 200 (), ex_billing\<lparr>user_subscriptions := [ex_subscribed 7200000]\<rparr>,
      [SelectSubscription, UpdateSubscription])"
    by (simp add: webhook_POST_def handle_event_def select_subscription_def single_def
        update_subscription_def subscription_status_ok_def Let_def billing_ex_defs ex_subscribed_def)
  have d: "webhook_POST ex_cfg ex_constructEvent (ex_env\<lparr>now := 7300000\<rparr>)
       (ex_billing\<lparr>user_subscriptions := [ex_subscribed 7200000]\<rparr>) ''{}'' (Some ''sig_subscription'') =
     (Ok_json 200 (), ex_billing\<lparr>user_subscriptions := [ex_subscribed 7300000]\<rparr>,
      [SelectSubscription, UpdateSubscription])"
    by (simp add: webhook_POST_def handle_event_def select_subscription_def single_def
        update_subscription_def subscription_status_ok_def Let_def billing_ex_defs ex_subscribed_def)
  from webhook_replay_idempotent [OF H a b] webhook_replay_idempotent [OF H c d] a b c d
  show ?thesis by simp
qed

text \<open>
  \<^bold>\<open>C8.\<close> When the handler is configured and the library's verification of the body
  and the signature header against the secret throws, the handler answers 400 with the error
  \<^verbatim>\<open>Invalid signature\<close>, makes no store call and leaves the tables as they are.
  Whatever the configuration, a request whose signature does not verify gets an error
  response, no store call and no change. The signature middleware answers 401 unless the
  header is \<^verbatim>\<open>sha256=\<close> followed by the HMAC of the body.
\<close>

theorem webhook_rejects_bad_signature:
  "(stripe_configured cfg \<and> webhookSecret cfg = Some secret \<and> secret \<noteq> [] \<and>
    constructEvent body signature secret = None
      \<longrightarrow> webhook_POST cfg constructEvent e db body signature =
            (Err_json 400 ''Invalid signature'', db, [])) \<and>
   ((\<forall>secret. webhookSecret cfg = Some secret \<longrightarrow> constructEvent body signature secret = None)
      \<longrightarrow> (\<exists>code msg. webhook_POST cfg constructEvent e db body signature = (Err_json code msg, db, []))) \<and>
   (header \<noteq> Some (''sha256='' @ hmac secret body)
      \<longrightarrow> (\<exists>msg. validateSignature hmac secret header body = Respond 401 msg))"
proof -
  have 1: "webhook_POST cfg constructEvent e db body signature = (Err_json 400 ''Invalid signature'', db, [])"
    if "stripe_configured cfg" "webhookSecret cfg = Some secret" "secret \<noteq> []"
       "constructEvent body signature secret = None"
    using that by (simp add: webhook_POST_def)
  have 2: "\<exists>code msg. webhook_POST cfg constructEvent e db body signature = (Err_json code msg, db, [])"
    if "\<forall>secret. webhookSecret cfg = Some secret \<longrightarrow> constructEvent body signature secret = None"
    using that by (cases "webhookSecret cfg") (auto simp: webhook_POST_def)
  have 3: "\<exists>msg. validateSignature hmac secret header body = Respond 401 msg"
    if "header \<noteq> Some (''sha256='' @ hmac secret body)"
    using that by (cases header) (auto simp: validateSignature_def)
  from 1 2 3 show ?thesis by blast
qed

theorem webhook_rejects_bad_signature_witness:
  "stripe_configured ex_cfg \<and> webhookSecret ex_cfg = Some ''whsec_1'' \<and>
   ex_constructEvent ''{}'' (Some ''forged'') ''whsec_1'' = None \<and>
   webhook_POST ex_cfg ex_constructEvent ex_env ex_billing ''{}'' (Some ''forged'') =
     (Err_json 400 ''Invalid signature'', ex_billing, []) \<and>
   validateSignature (\<lambda>secret body. ''00ff'') ''whsec_1'' (Some ''sha256=0000'') ''{}'' =
     Respond 401 ''Invalid signature''"
proof -
  have h: "stripe_configured ex_cfg" "webhookSecret ex_cfg = Some ''whsec_1''" "''whsec_1'' \<noteq> []"
    "ex_constructEvent ''{}'' (Some ''forged'') ''whsec_1'' = None"
    by (simp_all add: ex_cfg_def ex_constructEvent_def)
  have v: "validateSignature (\<lambda>secret body. ''00ff'') ''whsec_1'' (Some ''sha256=0000'') ''{}'' =
     Respond 401 ''Invalid signature''"
    by (simp add: validateSignature_def)
  from webhook_rejects_bad_signature
         [of ex_cfg "''whsec_1''" ex_constructEvent "''{}''" "Some ''forged''" ex_env ex_billing
             "Some ''sha256=0000''" "\<lambda>secret body. ''00ff''"]
       h v
  show ?thesis by simp
qed

end
